theory Spec2Isabelle
  imports Main
begin

section \<open>Python strings\<close>

text \<open>
  A Python \<open>str\<close> is a sequence of Unicode code points: a character is modelled as a
  \<^typ>\<open>nat\<close>. The literals of the program are ASCII and are written with \<open>lit\<close>.
\<close>

type_synonym str = "nat list"

definition lit :: "string \<Rightarrow> str" where
  "lit s = map of_char s"

text \<open>
  \<open>\d\<close> and \<open>\w\<close> of a \<open>str\<close> pattern and \<open>str.strip()\<close> consult the Unicode database of
  the interpreter: \<open>\d\<close> is a decimal digit, \<open>\w\<close> is an alphanumeric character or the
  underscore, and \<open>strip\<close> removes whitespace. Their answers on ASCII are fixed: \<open>0-9\<close>,
  \<open>[A-Za-z0-9_]\<close>, and tab, line feed, vertical tab, form feed, carriage return, the four
  separators \<open>0x1C-0x1F\<close> and the space (\<open>0x09-0x0D\<close> and \<open>0x1C-0x20\<close>). The answers
  beyond ASCII are a parameter of the model, the record \<open>unicode_db\<close>: every theorem that
  mentions a database holds for each one.
\<close>

record unicode_db =
  db_space :: "nat \<Rightarrow> bool"
  db_alnum :: "nat \<Rightarrow> bool"
  db_decimal :: "nat \<Rightarrow> bool"

definition space_char :: "unicode_db \<Rightarrow> nat \<Rightarrow> bool" where
  "space_char db c =
     (if c < 128 then 0x09 \<le> c \<and> c \<le> 0x0D \<or> 0x1C \<le> c \<and> c \<le> 0x20
      else db_space db c)"

definition digit :: "unicode_db \<Rightarrow> nat \<Rightarrow> bool" where
  "digit db c =
     (if c < 128 then of_char (CHR ''0'') \<le> c \<and> c \<le> of_char (CHR ''9'')
      else db_decimal db c)"

text \<open>\<open>[a-zA-Z]\<close> and \<open>[0-9a-fA-F]\<close> are written out in the patterns: they are ASCII.\<close>

definition ascii_letter :: "nat \<Rightarrow> bool" where
  "ascii_letter c =
     (of_char (CHR ''a'') \<le> c \<and> c \<le> of_char (CHR ''z'') \<or>
      of_char (CHR ''A'') \<le> c \<and> c \<le> of_char (CHR ''Z''))"

definition hex_digit :: "nat \<Rightarrow> bool" where
  "hex_digit c =
     (of_char (CHR ''0'') \<le> c \<and> c \<le> of_char (CHR ''9'') \<or>
      of_char (CHR ''a'') \<le> c \<and> c \<le> of_char (CHR ''f'') \<or>
      of_char (CHR ''A'') \<le> c \<and> c \<le> of_char (CHR ''F''))"

definition word_char :: "unicode_db \<Rightarrow> nat \<Rightarrow> bool" where
  "word_char db c =
     (if c < 128
      then ascii_letter c \<or> of_char (CHR ''0'') \<le> c \<and> c \<le> of_char (CHR ''9'') \<or>
           c = of_char (CHR ''_'')
      else db_alnum db c)"

definition slash :: nat where
  "slash = of_char (CHR 0x2F)"

definition backslash :: nat where
  "backslash = of_char (CHR 0x5C)"

definition py_strip :: "unicode_db \<Rightarrow> str \<Rightarrow> str" where
  "py_strip db s = rev (dropWhile (space_char db) (rev (dropWhile (space_char db) s)))"

section \<open>Error normalizer (ErrorInterceptorPlugin.\_normalize\_error\_message)\<close>

text \<open>The class \<open>[\w\-\. \\\/]\<close> of the path pattern.\<close>

definition path_char :: "unicode_db \<Rightarrow> nat \<Rightarrow> bool" where
  "path_char db c =
     (word_char db c \<or> c = of_char (CHR ''-'') \<or> c = of_char (CHR ''.'') \<or>
      c = of_char (CHR '' '') \<or> c = backslash \<or> c = slash)"

text \<open>
  A pattern is modelled by its matcher at the head of a string: the length of the match
  that Python's backtracking engine finds there, or \<open>None\<close>. None of the three patterns
  matches the empty string.
\<close>

text \<open>\<open>0x[0-9a-fA-F]+\<close>: the greedy run of hex digits is the end of the pattern.\<close>

fun match_hex :: "str \<Rightarrow> nat option" where
  "match_hex (a # b # cs) =
     (if a = of_char (CHR ''0'') \<and> b = of_char (CHR ''x'') \<and> takeWhile hex_digit cs \<noteq> []
      then Some (2 + length (takeWhile hex_digit cs)) else None)"
| "match_hex _ = None"

text \<open>\<open>\d{4}-\d{2}-\d{2} \d{2}:\d{2}:\d{2}\<close>: a fixed shape of digits and literals.\<close>

datatype atom = Digit | Lit nat

fun match_atoms :: "unicode_db \<Rightarrow> atom list \<Rightarrow> str \<Rightarrow> bool" where
  "match_atoms db [] s = True"
| "match_atoms db (a # as) [] = False"
| "match_atoms db (Digit # as) (c # cs) = (digit db c \<and> match_atoms db as cs)"
| "match_atoms db (Lit l # as) (c # cs) = (c = l \<and> match_atoms db as cs)"

definition timestamp_atoms :: "atom list" where
  "timestamp_atoms =
     replicate 4 Digit @ [Lit (of_char (CHR ''-''))] @
     replicate 2 Digit @ [Lit (of_char (CHR ''-''))] @
     replicate 2 Digit @ [Lit (of_char (CHR '' ''))] @
     replicate 2 Digit @ [Lit (of_char (CHR '':''))] @
     replicate 2 Digit @ [Lit (of_char (CHR '':''))] @ replicate 2 Digit"

definition match_timestamp :: "unicode_db \<Rightarrow> str \<Rightarrow> nat option" where
  "match_timestamp db s =
     (if match_atoms db timestamp_atoms s then Some (length timestamp_atoms) else None)"

text \<open>
  \<open>(?:[a-zA-Z]\:)?(?:\\|\/)[\w\-\. \\\/]+\<close>: \<open>path_tail\<close> is the part after the optional
  drive; when the drive is there and the rest fails after it, the engine backtracks and
  tries the rest without the drive.
\<close>

definition path_tail :: "unicode_db \<Rightarrow> str \<Rightarrow> nat option" where
  "path_tail db s =
     (case s of
        [] \<Rightarrow> None
      | c # cs \<Rightarrow>
          if (c = backslash \<or> c = slash) \<and> takeWhile (path_char db) cs \<noteq> []
          then Some (1 + length (takeWhile (path_char db) cs)) else None)"

fun match_path :: "unicode_db \<Rightarrow> str \<Rightarrow> nat option" where
  "match_path db (a # b # cs) =
     (if ascii_letter a \<and> b = of_char (CHR '':'')
      then (case path_tail db cs of
              Some n \<Rightarrow> Some (2 + n)
            | None \<Rightarrow> path_tail db (a # b # cs))
      else path_tail db (a # b # cs))"
| "match_path db s = path_tail db s"

text \<open>
  \<open>re.sub(pattern, '', s)\<close>: scan from the left; where the pattern matches, drop the
  match and go on after it; elsewhere keep the character.
\<close>

fun re_sub :: "(str \<Rightarrow> nat option) \<Rightarrow> str \<Rightarrow> str" where
  "re_sub m [] = []"
| "re_sub m (c # cs) =
     (case m (c # cs) of
        None \<Rightarrow> c # re_sub m cs
      | Some n \<Rightarrow> re_sub m (drop (n - 1) cs))"

text \<open>Whether the pattern matches somewhere in the string.\<close>

fun has_match :: "(str \<Rightarrow> nat option) \<Rightarrow> str \<Rightarrow> bool" where
  "has_match m [] = False"
| "has_match m (c # cs) = (m (c # cs) \<noteq> None \<or> has_match m cs)"

definition normalize_error_message :: "unicode_db \<Rightarrow> str \<Rightarrow> str" where
  "normalize_error_message db message =
     py_strip db
       (re_sub (match_path db) (re_sub (match_timestamp db) (re_sub match_hex message)))"

definition similar_messages :: "unicode_db \<Rightarrow> str \<Rightarrow> str \<Rightarrow> bool" where
  "similar_messages db msg1 msg2 =
     (normalize_error_message db msg1 = normalize_error_message db msg2)"

section \<open>Similar-error grouping (ErrorInterceptorPlugin)\<close>

text \<open>
  The error context is a dictionary; the grouping reads its \<open>message\<close> and \<open>tag\<close>. The
  settings dictionary is shared by the plugin, the chat widget and the response thread; a
  key that is absent from it is \<open>None\<close>, and \<open>settings.get\<close> supplies the default.
\<close>

record error_context =
  message :: str
  tag :: str
  level :: int

record plugin_settings =
  api_type :: "str option"
  ollama_host :: "str option"
  openai_api_url :: "str option"
  azure_openai_endpoint :: "str option"
  azure_openai_deployment :: "str option"
  azure_openai_api_key :: "str option"
  group_similar_errors :: "bool option"
  error_history_size :: "int option"

record plugin =
  settings :: plugin_settings
  error_count :: int
  error_threshold :: int
  recent_errors :: "error_context list"

definition settings_get :: "'a option \<Rightarrow> 'a \<Rightarrow> 'a" where
  "settings_get v d = (case v of None \<Rightarrow> d | Some x \<Rightarrow> x)"

text \<open>The defaults of \<open>__init__\<close>, for the keys that the modelled code reads.\<close>

definition default_settings :: plugin_settings where
  "default_settings =
     \<lparr>api_type = Some (lit ''ollama''),
      ollama_host = Some (lit ''http://localhost:11434''),
      openai_api_url = Some (lit ''https://api.openai.com/v1/chat/completions''),
      azure_openai_endpoint = Some (lit ''https://your-azure-openai-endpoint/''),
      azure_openai_deployment = Some (lit ''Meta-Llama-3-8B-Instruct''),
      azure_openai_api_key = Some [],
      group_similar_errors = Some True,
      error_history_size = Some 50\<rparr>"

text \<open>The plugin as \<open>__init__\<close> leaves it.\<close>

definition init_plugin :: plugin where
  "init_plugin =
     \<lparr>settings = default_settings, error_count = 0, error_threshold = 3,
      recent_errors = []\<rparr>"

text \<open>
  \<open>_is_duplicate_error\<close>: the answer and the plugin afterwards. After the append the list
  is not empty, so \<open>pop(0)\<close> is \<open>tl\<close>.
\<close>

definition is_duplicate_error ::
  "unicode_db \<Rightarrow> error_context \<Rightarrow> plugin \<Rightarrow> bool \<times> plugin" where
  "is_duplicate_error db ctx p =
     (if list_ex (\<lambda>recent. tag recent = tag ctx \<and>
                     similar_messages db (message recent) (message ctx)) (recent_errors p)
      then (True, p)
      else
        (let appended = recent_errors p @ [ctx];
             kept = (if int (length appended) >
                        settings_get (error_history_size (settings p)) 50
                     then tl appended else appended)
         in (False, p\<lparr>recent_errors := kept\<rparr>)))"

text \<open>
  The grouping step of \<open>handle_qgis_error\<close> (``Group similar errors if enabled''): the
  result is \<open>True\<close> when the handler goes on to hand the error to the chat widget and
  \<open>False\<close> when it returns early.
\<close>

definition should_process ::
  "unicode_db \<Rightarrow> error_context \<Rightarrow> plugin \<Rightarrow> bool \<times> plugin" where
  "should_process db ctx p =
     (if settings_get (group_similar_errors (settings p)) True
      then
        (case is_duplicate_error db ctx p of
           (True, p1) \<Rightarrow>
             (let p2 = p1\<lparr>error_count := error_count p1 + 1\<rparr>
              in if error_count p2 < error_threshold p2 then (False, p2) else (True, p2))
         | (False, p1) \<Rightarrow> (True, p1))
      else (True, p))"

text \<open>Submitting a sequence of errors, collecting the answers in order.\<close>

fun submit_all ::
  "unicode_db \<Rightarrow> error_context list \<Rightarrow> plugin \<Rightarrow> bool list \<times> plugin" where
  "submit_all db [] p = ([], p)"
| "submit_all db (ctx # ctxs) p =
     (case should_process db ctx p of
        (b, p1) \<Rightarrow> (case submit_all db ctxs p1 of (bs, p2) \<Rightarrow> (b # bs, p2)))"

section \<open>Backend adapters (ResponseThread)\<close>

text \<open>The three Qt signals of the thread, in the order in which they are emitted.\<close>

datatype signal = Response_chunk str | Response_ready str | Response_finished

text \<open>The calls that leave the process.\<close>

datatype request = Http_post str | Azure_complete str str

text \<open>
  What the remote side does is an input of the model. A stream is the list of its items
  as the code sees them after decoding, followed by the text of the exception that ended
  the iteration, if one did; an exception of the request itself is a stream with no item.
\<close>

datatype ollama_line =
    Blank_line
  | Not_json
  | Json_object str bool

datatype exn = Request_exception str | Other_exception str

datatype openai_line =
    Empty_line
  | No_data_prefix
  | Done_marker
  | Bad_json
  | Line_exception
  | Error_object str
  | Delta str

datatype openai_reply =
    Post_fails exn
  | Http_response nat str "openai_line list" "exn option"

datatype azure_update = No_choices | Choice str

record network =
  ollama_reply :: "ollama_line list \<times> str option"
  openai_reply :: openai_reply
  azure_reply :: "azure_update list \<times> str option"

text \<open>
  The loop of \<open>process_ollama_request\<close>. \<open>Json_object content done\<close> is a line that
  parses, with \<open>data.get('response', '')\<close> and \<open>data.get('done', False)\<close>. A line with
  \<open>done\<close> emits \<open>response_finished\<close> and breaks; the \<open>else\<close> of the loop emits it when
  the stream ends without one; an exception goes to the handler.
\<close>

fun ollama_lines :: "ollama_line list \<Rightarrow> str option \<Rightarrow> signal list" where
  "ollama_lines [] None = [Response_finished]"
| "ollama_lines [] (Some err) = [Response_ready ((lit ''API Error: '') @ err), Response_finished]"
| "ollama_lines (Blank_line # ls) e = ollama_lines ls e"
| "ollama_lines (Not_json # ls) e = ollama_lines ls e"
| "ollama_lines (Json_object content done # ls) e =
     (if content \<noteq> [] then [Response_chunk content] else []) @
     (if done then [Response_finished] else ollama_lines ls e)"

definition process_ollama_request ::
  "plugin_settings \<Rightarrow> ollama_line list \<times> str option \<Rightarrow> signal list \<times> request list" where
  "process_ollama_request s reply =
     (ollama_lines (fst reply) (snd reply),
      [Http_post (settings_get (ollama_host s) (lit ''http://localhost:11434'') @ (lit ''/api/generate''))])"

text \<open>\<open>str(n)\<close> of a status code.\<close>

fun show_nat :: "nat \<Rightarrow> str" where
  "show_nat n =
     (if n < 10 then [of_char (CHR ''0'') + n]
      else show_nat (n div 10) @ [of_char (CHR ''0'') + n mod 10])"

fun exn_notice :: "exn \<Rightarrow> str" where
  "exn_notice (Request_exception e) = (lit ''Request error: '') @ e"
| "exn_notice (Other_exception e) = (lit ''Unexpected error: '') @ e"

text \<open>
  The loop of \<open>process_openai_request\<close> and what follows it. Every path ends in the
  \<open>finally\<close> of the function, which emits \<open>response_finished\<close>; the normal end of the loop
  emits it once more before that. \<open>Delta content\<close> is a decoded line whose
  \<open>choices[0].delta.content\<close> is \<open>content\<close> (empty when it is absent).
\<close>

fun openai_lines :: "openai_line list \<Rightarrow> exn option \<Rightarrow> signal list" where
  "openai_lines [] None = [Response_finished, Response_finished]"
| "openai_lines [] (Some x) = [Response_ready (exn_notice x), Response_finished]"
| "openai_lines (Empty_line # ls) e = openai_lines ls e"
| "openai_lines (No_data_prefix # ls) e = openai_lines ls e"
| "openai_lines (Done_marker # ls) e = openai_lines ls e"
| "openai_lines (Bad_json # ls) e = openai_lines ls e"
| "openai_lines (Line_exception # ls) e = openai_lines ls e"
| "openai_lines (Error_object error_msg # ls) e =
     [Response_ready ((lit ''API Error: '') @ error_msg), Response_finished]"
| "openai_lines (Delta content # ls) e =
     (if content \<noteq> [] then [Response_chunk content] else []) @ openai_lines ls e"

fun process_openai_request ::
  "plugin_settings \<Rightarrow> openai_reply \<Rightarrow> signal list \<times> request list" where
  "process_openai_request s (Post_fails x) =
     ([Response_ready (exn_notice x), Response_finished],
      [Http_post (settings_get (openai_api_url s) [])])"
| "process_openai_request s (Http_response status_code body ls e) =
     ((if status_code \<noteq> 200
       then [Response_ready ((lit ''API Error: '') @ show_nat status_code @ (lit '' - '') @ body),
             Response_finished]
       else openai_lines ls e),
      [Http_post (settings_get (openai_api_url s) [])])"

text \<open>\<open>rstrip('/')\<close>.\<close>

definition rstrip_slash :: "str \<Rightarrow> str" where
  "rstrip_slash s = rev (dropWhile (\<lambda>c. c = slash) (rev s))"

fun azure_updates :: "azure_update list \<Rightarrow> str option \<Rightarrow> signal list" where
  "azure_updates [] None = [Response_finished]"
| "azure_updates [] (Some error_message) =
     [Response_ready ((lit ''Error: '') @ error_message), Response_finished]"
| "azure_updates (No_choices # us) e = azure_updates us e"
| "azure_updates (Choice content # us) e =
     (if content \<noteq> [] then [Response_chunk content] else []) @ azure_updates us e"

definition process_azure_openai_request ::
  "plugin_settings \<Rightarrow> azure_update list \<times> str option \<Rightarrow> signal list \<times> request list" where
  "process_azure_openai_request s reply =
     (let azure_endpoint = rstrip_slash (settings_get (azure_openai_endpoint s) []);
          azure_deployment = settings_get (azure_openai_deployment s) [];
          azure_api_key = settings_get (azure_openai_api_key s) []
      in if \<not> (azure_endpoint \<noteq> [] \<and> azure_deployment \<noteq> [] \<and> azure_api_key \<noteq> [])
         then ([Response_ready (lit ''Azure OpenAI configuration is incomplete.'')], [])
         else (azure_updates (fst reply) (snd reply),
               [Azure_complete azure_endpoint azure_deployment]))"

text \<open>
  \<open>ResponseThread.run\<close>: the signals emitted, in order, and the requests made. The
  \<open>finally\<close> of \<open>run\<close> emits a last \<open>response_finished\<close>.
\<close>

definition run :: "plugin_settings \<Rightarrow> network \<Rightarrow> signal list \<times> request list" where
  "run s net =
     (let api = settings_get (api_type s) (lit ''ollama'');
          r = (if api = (lit ''ollama'') then process_ollama_request s (ollama_reply net)
               else if api = (lit ''openai'') then process_openai_request s (openai_reply net)
               else if api = (lit ''azure_openai'')
                 then process_azure_openai_request s (azure_reply net)
               else ([Response_ready (lit ''Unsupported API type.'')], []))
      in (fst r @ [Response_finished], snd r))"

section \<open>Chat widget (FloatingChatWidget)\<close>

text \<open>
  A history entry is a dictionary with the keys \<open>role\<close> and \<open>content\<close>. A line of the
  chat display is kept as the speaker and the markdown text: it stands for
  \<open>"<b>label:</b> " + markdown_to_html(text)\<close>, where the label is \<open>You\<close>, \<open>Geominds\<close> or, for
  \<open>Role r\<close>, the value of \<open>r.capitalize()\<close>. \<open>threads\<close> lists the response threads that
  were started, each with its prompt and its error flag.
\<close>

datatype speaker = You | Geominds | Role str

record msg =
  role :: str
  content :: str

record widget =
  widget_settings :: plugin_settings
  analysis_in_progress :: bool
  history :: "msg list"
  current_response :: str
  chat_display :: "(speaker \<times> str) list"
  chat_input :: str
  threads :: "(str \<times> bool) list"

definition init_widget :: "plugin_settings \<Rightarrow> widget" where
  "init_widget s =
     \<lparr>widget_settings = s,
      analysis_in_progress = False,
      history =
        [\<lparr>role = (lit ''system''),
          content = (lit ''You are Geominds, a QGIS assistant. '') @
                    (lit ''You can have normal conversations or analyze QGIS errors. '') @
                    (lit ''When analyzing errors, provide cause, resolution steps, and prevention tips.'')\<rparr>],
      current_response = [],
      chat_display = [],
      chat_input = [],
      threads = []\<rparr>"

definition run_model_thread :: "str \<Rightarrow> bool \<Rightarrow> widget \<Rightarrow> widget" where
  "run_model_thread prompt_text is_error w =
     (if analysis_in_progress w then w
      else w\<lparr>analysis_in_progress := True,
             threads := threads w @ [(prompt_text, is_error)]\<rparr>)"

fun render :: "msg list \<Rightarrow> (speaker \<times> str) list" where
  "render [] = []"
| "render (m # ms) =
     (if role m = (lit ''system'') then render ms
      else if role m = (lit ''user'') then (You, content m) # render ms
      else if role m = (lit ''assistant'') then (Geominds, content m) # render ms
      else (Role (role m), content m) # render ms)"

definition update_chat_display :: "widget \<Rightarrow> widget" where
  "update_chat_display w = w\<lparr>chat_display := render (history w)\<rparr>"

text \<open>
  \<open>handle_response_chunk\<close>. \<open>history[-1]\<close> of an empty history raises \<open>IndexError\<close>: the
  result is \<open>None\<close> then.
\<close>

definition handle_response_chunk :: "str \<Rightarrow> widget \<Rightarrow> widget option" where
  "handle_response_chunk chunk w =
     (let h = (if current_response w = [] \<and>
                  (history w = [] \<or> role (last (history w)) \<noteq> (lit ''assistant''))
               then history w @ [\<lparr>role = (lit ''assistant''), content = []\<rparr>]
               else history w);
          response = current_response w @ chunk
      in if h = [] then None
         else Some (update_chat_display
                      (w\<lparr>current_response := response,
                         history := butlast h @ [(last h)\<lparr>content := response\<rparr>]\<rparr>)))"

definition end_of_response :: "widget \<Rightarrow> widget" where
  "end_of_response w = w\<lparr>current_response := [], analysis_in_progress := False\<rparr>"

definition display_full_response :: "str \<Rightarrow> widget \<Rightarrow> widget" where
  "display_full_response text w =
     w\<lparr>chat_display := chat_display w @ [(Geominds, text)],
       history := history w @ [\<lparr>role = (lit ''assistant''), content = text\<rparr>],
       analysis_in_progress := False\<rparr>"

definition handle_user_input :: "unicode_db \<Rightarrow> widget \<Rightarrow> widget" where
  "handle_user_input db w =
     (let user_text = py_strip db (chat_input w)
      in if user_text = [] then w
         else run_model_thread user_text False
                (w\<lparr>chat_display := chat_display w @ [(You, user_text)],
                   chat_input := [],
                   history := history w @ [\<lparr>role = (lit ''user''), content = user_text\<rparr>]\<rparr>))"

text \<open>
  \<open>add_error_message\<close> collects the environment, searches for references and formats the
  error before it touches the history, and builds the prompt after it has appended the
  formatted error. These steps are the input of the model: \<open>Prep_raises\<close> when one of the
  steps before the append raises, \<open>Display_only d\<close> when the formatted error is \<open>d\<close> and
  \<open>build_error_prompt\<close> raises (as \<open>int(level)\<close> does on a level that is no number), and
  \<open>Prepared d p\<close> when the prompt \<open>p\<close> is built. The handler catches every exception. The
  fixed text of the new system message is the parameter \<open>protocol\<close>.
\<close>

datatype error_prep = Prep_raises | Display_only str | Prepared str str

definition add_error_message :: "str \<Rightarrow> error_prep \<Rightarrow> widget \<Rightarrow> widget" where
  "add_error_message protocol prep w =
     (if analysis_in_progress w then w
      else
        (case prep of
           Prep_raises \<Rightarrow> w
         | Display_only error_display \<Rightarrow>
             update_chat_display
               (w\<lparr>history := history w @ [\<lparr>role = (lit ''user''), content = error_display\<rparr>]\<rparr>)
         | Prepared error_display error_prompt \<Rightarrow>
             (let w1 = update_chat_display
                         (w\<lparr>history :=
                              history w @ [\<lparr>role = (lit ''user''), content = error_display\<rparr>]\<rparr>);
                  w2 = w1\<lparr>history :=
                            \<lparr>role = (lit ''system''), content = protocol\<rparr> #
                            filter (\<lambda>m. role m \<noteq> (lit ''system'')) (history w1)\<rparr>
              in run_model_thread error_prompt True w2)))"

text \<open>
  The connections made in \<open>run_model_thread\<close>: \<open>response_chunk\<close> to
  \<open>handle_response_chunk\<close> and \<open>response_finished\<close> to \<open>end_of_response\<close>. The connection
  of \<open>response_ready\<close> to \<open>display_full_response\<close> is commented out in the source, so the
  signal reaches no slot.
\<close>

fun deliver :: "signal \<Rightarrow> widget \<Rightarrow> widget option" where
  "deliver (Response_chunk chunk) w = handle_response_chunk chunk w"
| "deliver (Response_ready text) w = Some w"
| "deliver Response_finished w = Some (end_of_response w)"

fun deliver_all :: "signal list \<Rightarrow> widget \<Rightarrow> widget option" where
  "deliver_all [] w = Some w"
| "deliver_all (x # xs) w =
     (case deliver x w of None \<Rightarrow> None | Some w1 \<Rightarrow> deliver_all xs w1)"

text \<open>
  Everything that can happen to the widget: the user sends the text of the input box, the
  plugin hands over an error, a signal of a thread arrives, or one of the two public
  methods \<open>run_model_thread\<close> and \<open>display_full_response\<close> is called.
\<close>

datatype event =
    User_input str
  | Error_message error_prep
  | Signal signal
  | Start str bool
  | Full_response str

fun step :: "unicode_db \<Rightarrow> str \<Rightarrow> event \<Rightarrow> widget \<Rightarrow> widget option" where
  "step db protocol (User_input text) w =
     Some (handle_user_input db (w\<lparr>chat_input := text\<rparr>))"
| "step db protocol (Error_message prep) w = Some (add_error_message protocol prep w)"
| "step db protocol (Signal x) w = deliver x w"
| "step db protocol (Start prompt_text is_error) w = Some (run_model_thread prompt_text is_error w)"
| "step db protocol (Full_response text) w = Some (display_full_response text w)"

fun run_events ::
  "unicode_db \<Rightarrow> str \<Rightarrow> event list \<Rightarrow> widget \<Rightarrow> widget option" where
  "run_events db protocol [] w = Some w"
| "run_events db protocol (e # es) w =
     (case step db protocol e w of
        None \<Rightarrow> None
      | Some w1 \<Rightarrow> run_events db protocol es w1)"

text \<open>Exactly one system message, and it is the first entry.\<close>

fun head_system :: "msg list \<Rightarrow> bool" where
  "head_system [] = False"
| "head_system (m # ms) = (role m = (lit ''system'') \<and> list_all (\<lambda>x. role x \<noteq> (lit ''system'')) ms)"

text \<open>
  What the events may do to a history that starts with its only system message: the new
  history starts with its only system message, is at least as long, and agrees with the
  old one at every index but the first and the last.
\<close>

definition extends :: "msg list \<Rightarrow> msg list \<Rightarrow> bool" where
  "extends h h' \<longleftrightarrow>
     head_system h' \<and> length h \<le> length h' \<and>
     (\<forall>i. 0 < i \<and> Suc i < length h \<longrightarrow> h' ! i = h ! i)"


section \<open>Scenarios\<close>

text \<open>
  A database for the examples: beyond ASCII it knows the whitespace characters U+0085 and
  U+00A0 and the letter U+00E9, and nothing else.
\<close>

definition example_db :: unicode_db where
  "example_db =
     \<lparr>db_space = (\<lambda>c. c = 0x85 \<or> c = 0xA0),
      db_alnum = (\<lambda>c. c = 0xE9),
      db_decimal = (\<lambda>c. False)\<rparr>"

text \<open>The error of the first end-to-end scenario, at level \<open>Critical\<close>.\<close>

definition crash :: error_context where
  "crash =
     \<lparr>message = lit ''Plugin crashed at 0x7fa23, 2024-01-01 10:00:00'', tag = lit ''core'',
      level = 2\<rparr>"

text \<open>The plugin after ``Group Similar Errors'' was unchecked in the settings dialog.\<close>

definition grouping_off :: plugin where
  "grouping_off =
     init_plugin\<lparr>settings := default_settings\<lparr>group_similar_errors := Some False\<rparr>\<rparr>"

text \<open>
  A plugin whose history size is 3 and whose store is full: a warning with the tag of
  \<open>crash\<close> and another message, the message of \<open>crash\<close> under another tag, and a message
  that differs from the one of \<open>crash\<close> outside the address and the timestamp.
\<close>

definition layer_missing :: error_context where
  "layer_missing = \<lparr>message = lit ''Layer roads not found'', tag = lit ''core'', level = 1\<rparr>"

definition crash_python :: error_context where
  "crash_python = crash\<lparr>tag := lit ''python''\<rparr>"

definition crash_startup :: error_context where
  "crash_startup =
     \<lparr>message = lit ''Plugin crashed at startup 0x7fa23, 2024-01-01 10:00:00'',
      tag = lit ''core'', level = 2\<rparr>"

definition full_plugin :: plugin where
  "full_plugin =
     init_plugin
       \<lparr>settings := default_settings\<lparr>error_history_size := Some 3\<rparr>,
        recent_errors := [layer_missing, crash_python, crash_startup]\<rparr>"

text \<open>The default settings with the managed-cloud backend chosen: the API key is empty.\<close>

definition azure_unconfigured :: plugin_settings where
  "azure_unconfigured = default_settings\<lparr>api_type := Some (lit ''azure_openai'')\<rparr>"

text \<open>A remote side that refuses every connection.\<close>

definition closed_network :: network where
  "closed_network =
     \<lparr>ollama_reply = ([], Some (lit ''connection refused'')),
      openai_reply = Post_fails (Request_exception (lit ''connection refused'')),
      azure_reply = ([], Some (lit ''connection refused''))\<rparr>"

text \<open>A local model that answers \<open>Hi\<close> in one line, which is also the last one.\<close>

definition ollama_hi :: network where
  "ollama_hi =
     \<lparr>ollama_reply = ([Json_object (lit ''Hi'') True], None),
      openai_reply = Post_fails (Request_exception (lit ''connection refused'')),
      azure_reply = ([], Some (lit ''connection refused''))\<rparr>"

text \<open>The widget after the user has sent \<open>hi\<close>: a generation is streaming.\<close>

definition streaming :: widget where
  "streaming =
     handle_user_input example_db ((init_widget default_settings)\<lparr>chat_input := lit ''hi''\<rparr>)"

text \<open>The same widget after the chunk \<open>A\<close> has arrived.\<close>

definition replied :: widget where
  "replied =
     (init_widget default_settings)
       \<lparr>analysis_in_progress := True,
        history := history (init_widget default_settings) @
                   [\<lparr>role = lit ''user'', content = lit ''hi''\<rparr>,
                    \<lparr>role = lit ''assistant'', content = lit ''A''\<rparr>],
        current_response := lit ''A'',
        chat_display := [(You, lit ''hi''), (Geominds, lit ''A'')],
        threads := [(lit ''hi'', False)]\<rparr>"

section \<open>Properties of the normalizer\<close>

lemma length_re_sub: "length (re_sub m s) \<le> length s"
proof (induction m s rule: re_sub.induct)
  case (1 m)
  show ?case by simp
next
  case (2 m c cs)
  show ?case
  proof (cases "m (c # cs)")
    case None
    with 2 show ?thesis by simp
  next
    case (Some n)
    with 2 have "length (re_sub m (drop (n - 1) cs)) \<le> length (drop (n - 1) cs)" by simp
    with Some show ?thesis by simp
  qed
qed

lemma re_sub_id_iff: "re_sub m s = s \<longleftrightarrow> \<not> has_match m s"
proof (induction s)
  case Nil
  show ?case by simp
next
  case (Cons c cs)
  show ?case
  proof (cases "m (c # cs)")
    case None
    with Cons show ?thesis by simp
  next
    case (Some n)
    have "length (re_sub m (drop (n - 1) cs)) \<le> length cs"
      using length_re_sub [of m "drop (n - 1) cs"] by simp
    then have "re_sub m (drop (n - 1) cs) \<noteq> c # cs" by auto
    with Some show ?thesis by simp
  qed
qed

lemma re_sub_same_length: "length (re_sub m s) = length s \<Longrightarrow> re_sub m s = s"
proof (induction s)
  case Nil
  show ?case by simp
next
  case (Cons c cs)
  show ?case
  proof (cases "m (c # cs)")
    case None
    with Cons show ?thesis by simp
  next
    case (Some n)
    have "length (re_sub m (drop (n - 1) cs)) \<le> length cs"
      using length_re_sub [of m "drop (n - 1) cs"] by simp
    with Some Cons.prems show ?thesis by simp
  qed
qed

lemma length_py_strip: "length (py_strip db s) \<le> length s"
proof -
  have "length (dropWhile (space_char db) (rev (dropWhile (space_char db) s)))
          \<le> length (rev (dropWhile (space_char db) s))"
    by (rule length_dropWhile_le)
  moreover have "length (dropWhile (space_char db) s) \<le> length s"
    by (rule length_dropWhile_le)
  ultimately show ?thesis by (simp add: py_strip_def)
qed

lemma dropWhile_keeps_last:
  "\<not> P x \<Longrightarrow> \<exists>ys. dropWhile P (zs @ [x]) = ys @ [x]"
  by (induction zs) auto

lemma dropWhile_rev_prefix:
  assumes "dropWhile P t = t"
  shows "dropWhile P (rev (dropWhile P (rev t))) = rev (dropWhile P (rev t))"
proof (cases t)
  case Nil
  then show ?thesis by simp
next
  case (Cons x t')
  have np: "\<not> P x"
  proof
    assume "P x"
    with assms Cons have "dropWhile P t' = x # t'" by simp
    then have "length (dropWhile P t') = Suc (length t')" by simp
    then show False using length_dropWhile_le [of P t'] by simp
  qed
  obtain ys where ys: "dropWhile P (rev t' @ [x]) = ys @ [x]"
    using np dropWhile_keeps_last [of P x "rev t'"] by blast
  have r: "rev t = rev t' @ [x]" using Cons by simp
  have e: "rev (dropWhile P (rev t)) = x # rev ys" unfolding r ys by simp
  show ?thesis unfolding e using np by simp
qed

lemma py_strip_idem: "py_strip db (py_strip db s) = py_strip db s"
proof -
  let ?t = "dropWhile (space_char db) s"
  have "dropWhile (space_char db) ?t = ?t" by simp
  then have "dropWhile (space_char db) (rev (dropWhile (space_char db) (rev ?t)))
               = rev (dropWhile (space_char db) (rev ?t))"
    by (rule dropWhile_rev_prefix)
  then show ?thesis by (simp add: py_strip_def)
qed

lemma normalize_stripped:
  "py_strip db (normalize_error_message db s) = normalize_error_message db s"
  by (simp add: normalize_error_message_def py_strip_idem)

text \<open>On \<open>00x1x2\<close> the two passes differ, whatever the database says beyond ASCII.\<close>

lemma second_pass_removes_more:
  "normalize_error_message db (lit ''00x1x2'') = lit ''0x2'' \<and>
   normalize_error_message db (lit ''0x2'') = []"
  by code_simp

text \<open>
  C5. The normalizer is not idempotent on every string: removing a token can join its
  neighbours into a new token. On \<open>00x1x2\<close> the first pass removes \<open>0x1\<close> and leaves
  \<open>0x2\<close>, which the second pass removes.
\<close>

theorem normalize_not_idempotent:
  "normalize_error_message example_db (normalize_error_message example_db (lit ''00x1x2'')) \<noteq>
     normalize_error_message example_db (lit ''00x1x2'')"
  by code_simp

text \<open>
  C5, as amended. Normalizing a second time changes nothing exactly when the first
  result holds no hexadecimal-address token, no timestamp and no path-like token; the
  result of the first pass is always trimmed.
\<close>

theorem normalize_idempotent_iff:
  "normalize_error_message db (normalize_error_message db s) = normalize_error_message db s \<longleftrightarrow>
     \<not> has_match match_hex (normalize_error_message db s) \<and>
     \<not> has_match (match_timestamp db) (normalize_error_message db s) \<and>
     \<not> has_match (match_path db) (normalize_error_message db s)"
proof
  let ?n = "normalize_error_message db s"
  let ?a = "re_sub match_hex ?n"
  let ?b = "re_sub (match_timestamp db) ?a"
  let ?c = "re_sub (match_path db) ?b"
  assume fp: "normalize_error_message db ?n = ?n"
  have unfold_n: "normalize_error_message db ?n = py_strip db ?c"
    by (fact normalize_error_message_def)
  have "py_strip db ?c = ?n" by (rule trans [OF unfold_n [symmetric] fp])
  then have "length ?n \<le> length ?c" using length_py_strip [of db ?c] by simp
  moreover have "length ?c \<le> length ?b" by (rule length_re_sub)
  moreover have "length ?b \<le> length ?a" by (rule length_re_sub)
  moreover have "length ?a \<le> length ?n" by (rule length_re_sub)
  ultimately have la: "length ?a = length ?n" and lb: "length ?b = length ?a"
    and lc: "length ?c = length ?b" by simp_all
  from la have a: "?a = ?n" by (rule re_sub_same_length)
  from lb have b: "?b = ?a" by (rule re_sub_same_length)
  from lc have c: "?c = ?b" by (rule re_sub_same_length)
  from b have b': "re_sub (match_timestamp db) ?n = ?n" unfolding a .
  from c have c': "re_sub (match_path db) ?n = ?n" unfolding b a b' .
  have "\<not> has_match match_hex ?n" using a re_sub_id_iff [of match_hex ?n] by blast
  moreover have "\<not> has_match (match_timestamp db) ?n"
    using b' re_sub_id_iff [of "match_timestamp db" ?n] by blast
  moreover have "\<not> has_match (match_path db) ?n"
    using c' re_sub_id_iff [of "match_path db" ?n] by blast
  ultimately show "\<not> has_match match_hex ?n \<and> \<not> has_match (match_timestamp db) ?n \<and>
     \<not> has_match (match_path db) ?n" by blast
next
  let ?n = "normalize_error_message db s"
  assume "\<not> has_match match_hex ?n \<and> \<not> has_match (match_timestamp db) ?n \<and>
     \<not> has_match (match_path db) ?n"
  then have nh: "\<not> has_match match_hex ?n" and nt: "\<not> has_match (match_timestamp db) ?n"
    and np: "\<not> has_match (match_path db) ?n" by blast+
  have clean: "re_sub match_hex ?n = ?n" "re_sub (match_timestamp db) ?n = ?n"
    "re_sub (match_path db) ?n = ?n"
    using nh nt np by (simp_all only: re_sub_id_iff not_False_eq_True)
  have "normalize_error_message db ?n =
          py_strip db (re_sub (match_path db) (re_sub (match_timestamp db) (re_sub match_hex ?n)))"
    by (fact normalize_error_message_def)
  also have "\<dots> = py_strip db ?n" by (simp only: clean)
  also have "\<dots> = ?n" by (fact normalize_stripped)
  finally show "normalize_error_message db ?n = ?n" .
qed

theorem normalize_idempotent_iff_witness:
  "normalize_error_message example_db (normalize_error_message example_db (message crash)) =
   normalize_error_message example_db (message crash)"
proof -
  have h1: "\<not> has_match match_hex (normalize_error_message example_db (message crash))"
    by code_simp
  have h2: "\<not> has_match (match_timestamp example_db)
                (normalize_error_message example_db (message crash))"
    by code_simp
  have h3: "\<not> has_match (match_path example_db)
                (normalize_error_message example_db (message crash))"
    by code_simp
  show ?thesis
    by (rule iffD2 [OF normalize_idempotent_iff]) (intro conjI h1 h2 h3)
qed

section \<open>Properties of the grouping\<close>

text \<open>
  C1. The claim expects the answers false, false, true for three submissions of the same
  error to a fresh plugin with threshold 3. The code answers otherwise.
\<close>

theorem three_submissions_not_false_false_true:
  "fst (submit_all example_db [crash, crash, crash] init_plugin) \<noteq> [False, False, True]"
  by code_simp

text \<open>
  C1, as amended. With grouping enabled and threshold 3, three submissions of the same
  error to a fresh plugin are answered true, false, false: the first occurrence is
  processed, the two repeats are held back; a fourth submission is processed again.
\<close>

theorem three_submissions:
  "fst (submit_all db [crash, crash, crash] init_plugin) = [True, False, False] \<and>
   fst (submit_all db [crash, crash, crash, crash] init_plugin) = [True, False, False, True]"
  by (simp add: should_process_def is_duplicate_error_def similar_messages_def init_plugin_def
        default_settings_def settings_get_def Let_def)

text \<open>
  C7. The claim speaks of every error whose fingerprint is not in the store. With the
  grouping switched off the error is processed and the store stays as it was: no record
  is inserted.
\<close>

theorem grouping_off_inserts_nothing:
  "should_process example_db crash grouping_off = (True, grouping_off) \<and>
   recent_errors (snd (should_process example_db crash grouping_off)) = []"
  by (simp add: should_process_def grouping_off_def init_plugin_def default_settings_def
        settings_get_def)

text \<open>
  C7, as amended. With grouping enabled and a store within its capacity, an error that
  matches no stored record (same tag, same normalized message) is appended as the newest
  record, the oldest record is dropped if the capacity is exceeded, the store stays
  within the capacity, the count of repeats is unchanged, and the answer is true.
\<close>

theorem first_occurrence_processed:
  assumes "settings_get (group_similar_errors (settings p)) True"
    and "\<not> list_ex (\<lambda>recent. tag recent = tag ctx \<and>
                 similar_messages db (message recent) (message ctx)) (recent_errors p)"
    and "int (length (recent_errors p)) \<le> settings_get (error_history_size (settings p)) 50"
  shows "should_process db ctx p =
           (True, p\<lparr>recent_errors :=
                      (if int (length (recent_errors p)) <
                            settings_get (error_history_size (settings p)) 50
                       then recent_errors p @ [ctx] else tl (recent_errors p @ [ctx]))\<rparr>) \<and>
         int (length (recent_errors (snd (should_process db ctx p)))) \<le>
           settings_get (error_history_size (settings p)) 50"
proof -
  let ?cap = "settings_get (error_history_size (settings p)) 50"
  let ?kept = "if int (length (recent_errors p)) < ?cap
               then recent_errors p @ [ctx] else tl (recent_errors p @ [ctx])"
  have dup: "is_duplicate_error db ctx p = (False, p\<lparr>recent_errors := ?kept\<rparr>)"
    using assms(2) by (simp add: is_duplicate_error_def Let_def)
  have res: "should_process db ctx p = (True, p\<lparr>recent_errors := ?kept\<rparr>)"
    using assms(1) by (simp add: should_process_def dup)
  have "int (length ?kept) \<le> ?cap" using assms(3) by simp
  with res show ?thesis by simp
qed

text \<open>
  In the full store no record matches \<open>crash\<close>: the first has another message, the second
  another tag, the third another message after normalization.
\<close>

lemma full_plugin_no_match:
  "\<not> list_ex (\<lambda>recent. tag recent = tag crash \<and>
              similar_messages example_db (message recent) (message crash))
        (recent_errors full_plugin)"
  by code_simp

theorem first_occurrence_processed_witness:
  "should_process example_db crash full_plugin =
     (True, full_plugin\<lparr>recent_errors := [crash_python, crash_startup, crash]\<rparr>) \<and>
   int (length (recent_errors (snd (should_process example_db crash full_plugin)))) \<le> 3"
proof -
  have a: "settings_get (group_similar_errors (settings full_plugin)) True"
    by (simp add: full_plugin_def init_plugin_def default_settings_def settings_get_def)
  have c: "int (length (recent_errors full_plugin)) \<le>
             settings_get (error_history_size (settings full_plugin)) 50"
    by (simp add: full_plugin_def init_plugin_def default_settings_def settings_get_def)
  have s: "settings_get (error_history_size (settings full_plugin)) 50 = 3"
    by (simp add: full_plugin_def init_plugin_def default_settings_def settings_get_def)
  have r: "recent_errors full_plugin = [layer_missing, crash_python, crash_startup]"
    by (simp add: full_plugin_def)
  show ?thesis
    using first_occurrence_processed [OF a full_plugin_no_match c]
    unfolding s r by simp
qed


section \<open>Properties of the chat widget and the response thread\<close>

lemma lit_eq_iff [simp]: "lit a = lit b \<longleftrightarrow> a = b"
  by (simp add: lit_def inj_map_eq_map inj_on_def)

lemma lit_Nil_iff [simp]: "lit a = [] \<longleftrightarrow> a = []"
  by (simp add: lit_def)

lemma lit_append: "lit a @ lit b = lit (a @ b)"
  by (simp add: lit_def)

lemma py_strip_blank: "list_all (space_char db) s \<Longrightarrow> py_strip db s = []"
proof -
  assume "list_all (space_char db) s"
  then have e: "dropWhile (space_char db) s = []" by (induction s) auto
  show ?thesis unfolding py_strip_def e by simp
qed

lemma strip_examples:
  "py_strip db (lit ''hi'') = lit ''hi''"
  "py_strip db (lit ''a'') = lit ''a''"
  "py_strip db (lit ''b'') = lit ''b''"
  "py_strip db (lit ''c'') = lit ''c''"
  "py_strip db (lit ''again'') = lit ''again''"
  "py_strip db (lit ''more'') = lit ''more''"
  "py_strip db (lit ''hello'') = lit ''hello''"
  by code_simp+

text \<open>
  While \<open>analysis_in_progress\<close> is set, \<open>run_model_thread\<close> and \<open>add_error_message\<close> return at
  once and change nothing.
\<close>

lemma start_rejected:
  assumes "analysis_in_progress w"
  shows "run_model_thread prompt_text is_error w = w \<and>
         add_error_message protocol prep w = w"
  using assms by (simp add: run_model_thread_def add_error_message_def)

lemma start_twice:
  "run_model_thread p2 e2 (run_model_thread p1 e1 w) = run_model_thread p1 e1 w"
  by (simp add: run_model_thread_def)

text \<open>
  C2. The flag \<open>analysis_in_progress\<close> does not keep the generations apart. A thread emits
  \<open>response_finished\<close> more than once: for a local model that answers \<open>Hi\<close> and is done,
  the signals are the chunk and two \<open>response_finished\<close>. The user sends \<open>a\<close>; the chunk and
  the first \<open>response_finished\<close> arrive; the user sends \<open>b\<close>, which starts a second thread;
  the second \<open>response_finished\<close> of the first thread arrives and clears the flag; the user
  sends \<open>c\<close>, and a third thread is started although no signal of the second has arrived.
  And \<open>handle_user_input\<close> has no guard of its own: while the answer to \<open>hi\<close> is streaming
  the user sends \<open>again\<close>; the start is rejected (one thread was started), but the message
  is in the history, and the next chunk \<open>B\<close> is written into it.
\<close>

theorem second_session_started:
  "fst (run default_settings ollama_hi) =
     [Response_chunk (lit ''Hi''), Response_finished, Response_finished] \<and>
   map_option threads
     (run_events example_db (lit ''protocol'')
        [User_input (lit ''a''), Signal (Response_chunk (lit ''Hi'')), Signal Response_finished,
         User_input (lit ''b''), Signal Response_finished, User_input (lit ''c'')]
        (init_widget default_settings)) =
     Some [(lit ''a'', False), (lit ''b'', False), (lit ''c'', False)] \<and>
   map_option history
     (run_events example_db (lit ''protocol'')
        [User_input (lit ''hi''), Signal (Response_chunk (lit ''A'')),
         User_input (lit ''again''), Signal (Response_chunk (lit ''B''))]
        (init_widget default_settings)) =
     Some (history (init_widget default_settings) @
           [\<lparr>role = lit ''user'', content = lit ''hi''\<rparr>,
            \<lparr>role = lit ''assistant'', content = lit ''A''\<rparr>,
            \<lparr>role = lit ''user'', content = lit ''AB''\<rparr>]) \<and>
   map_option threads
     (run_events example_db (lit ''protocol'')
        [User_input (lit ''hi''), Signal (Response_chunk (lit ''A'')),
         User_input (lit ''again''), Signal (Response_chunk (lit ''B''))]
        (init_widget default_settings)) =
     Some [(lit ''hi'', False)]"
proof -
  have r: "fst (run default_settings ollama_hi) =
     [Response_chunk (lit ''Hi''), Response_finished, Response_finished]"
    by (simp add: run_def default_settings_def settings_get_def ollama_hi_def
          process_ollama_request_def)
  have t: "map_option threads
     (run_events example_db (lit ''protocol'')
        [User_input (lit ''a''), Signal (Response_chunk (lit ''Hi'')), Signal Response_finished,
         User_input (lit ''b''), Signal Response_finished, User_input (lit ''c'')]
        (init_widget default_settings)) =
     Some [(lit ''a'', False), (lit ''b'', False), (lit ''c'', False)]"
    by code_simp
  have h: "map_option history
     (run_events example_db (lit ''protocol'')
        [User_input (lit ''hi''), Signal (Response_chunk (lit ''A'')),
         User_input (lit ''again''), Signal (Response_chunk (lit ''B''))]
        (init_widget default_settings)) =
     Some (history (init_widget default_settings) @
           [\<lparr>role = lit ''user'', content = lit ''hi''\<rparr>,
            \<lparr>role = lit ''assistant'', content = lit ''A''\<rparr>,
            \<lparr>role = lit ''user'', content = lit ''AB''\<rparr>])"
    by code_simp
  have u: "map_option threads
     (run_events example_db (lit ''protocol'')
        [User_input (lit ''hi''), Signal (Response_chunk (lit ''A'')),
         User_input (lit ''again''), Signal (Response_chunk (lit ''B''))]
        (init_widget default_settings)) =
     Some [(lit ''hi'', False)]"
    by code_simp
  from r t h u show ?thesis by (intro conjI)
qed

text \<open>
  C10. When the text of the input box is empty or only whitespace, \<open>handle_user_input\<close>
  changes nothing: the history, the display, the input box, the flag and the list of
  started threads are as before.
\<close>

theorem blank_input_ignored:
  assumes "list_all (space_char db) (chat_input w)"
  shows "handle_user_input db w = w"
  using assms by (simp add: handle_user_input_def py_strip_blank)

theorem blank_input_ignored_witness:
  "handle_user_input example_db
     ((init_widget default_settings)\<lparr>chat_input := [0x20, 0x09, 0x0A, 0x85, 0xA0]\<rparr>) =
   (init_widget default_settings)\<lparr>chat_input := [0x20, 0x09, 0x0A, 0x85, 0xA0]\<rparr>"
proof -
  have "list_all (space_char example_db)
          (chat_input ((init_widget default_settings)
                         \<lparr>chat_input := [0x20, 0x09, 0x0A, 0x85, 0xA0]\<rparr>))"
    by (simp add: space_char_def example_db_def)
  then show ?thesis by (rule blank_input_ignored)
qed

text \<open>
  C9. With the managed-cloud backend chosen and the endpoint, the deployment or the API
  key empty, the thread emits the notice of the incomplete configuration and then
  \<open>response_finished\<close>, whatever the remote side would do, and makes no request; the
  widget that receives these signals is idle afterwards.
\<close>

theorem azure_incomplete_configuration:
  assumes "settings_get (api_type s) (lit ''ollama'') = lit ''azure_openai''"
    and "rstrip_slash (settings_get (azure_openai_endpoint s) []) = [] \<or>
         settings_get (azure_openai_deployment s) [] = [] \<or>
         settings_get (azure_openai_api_key s) [] = []"
  shows "run s net =
           ([Response_ready (lit ''Azure OpenAI configuration is incomplete.''),
             Response_finished], []) \<and>
         deliver_all (fst (run s net)) w = Some (end_of_response w) \<and>
         \<not> analysis_in_progress (end_of_response w)"
proof -
  have r: "run s net =
      ([Response_ready (lit ''Azure OpenAI configuration is incomplete.''),
        Response_finished], [])"
    using assms by (auto simp add: run_def process_azure_openai_request_def Let_def)
  have "\<not> analysis_in_progress (end_of_response w)" by (simp add: end_of_response_def)
  with r show ?thesis by simp
qed

theorem azure_incomplete_configuration_witness:
  "run azure_unconfigured closed_network =
     ([Response_ready (lit ''Azure OpenAI configuration is incomplete.''),
       Response_finished], []) \<and>
   deliver_all (fst (run azure_unconfigured closed_network)) streaming =
     Some (end_of_response streaming) \<and>
   \<not> analysis_in_progress (end_of_response streaming)"
proof -
  have a: "settings_get (api_type azure_unconfigured) (lit ''ollama'') = lit ''azure_openai''"
    by (simp add: azure_unconfigured_def default_settings_def settings_get_def)
  have b: "rstrip_slash (settings_get (azure_openai_endpoint azure_unconfigured) []) = [] \<or>
         settings_get (azure_openai_deployment azure_unconfigured) [] = [] \<or>
         settings_get (azure_openai_api_key azure_unconfigured) [] = []"
    by (simp add: azure_unconfigured_def default_settings_def settings_get_def)
  show ?thesis by (rule azure_incomplete_configuration [OF a b])
qed

text \<open>
  C4. The notice of a failure travels in the signal \<open>response_ready\<close>, which is connected
  to no slot: the widget ignores it. With the managed-cloud backend chosen and no API key,
  the user sends \<open>hello\<close>; after the signals of the thread the history holds the system
  message and \<open>hello\<close>, and the display holds \<open>hello\<close>: no notice was appended.
\<close>

theorem failure_notice_dropped:
  "deliver (Response_ready text) w = Some w \<and>
   map_option history
     (deliver_all (fst (run azure_unconfigured net))
        (handle_user_input db ((init_widget azure_unconfigured)\<lparr>chat_input := lit ''hello''\<rparr>))) =
   Some (history (init_widget azure_unconfigured) @
         [\<lparr>role = lit ''user'', content = lit ''hello''\<rparr>]) \<and>
   map_option chat_display
     (deliver_all (fst (run azure_unconfigured net))
        (handle_user_input db ((init_widget azure_unconfigured)\<lparr>chat_input := lit ''hello''\<rparr>))) =
   Some [(You, lit ''hello'')]"
proof -
  have a: "settings_get (api_type azure_unconfigured) (lit ''ollama'') = lit ''azure_openai''"
    by (simp add: azure_unconfigured_def default_settings_def settings_get_def)
  have b: "settings_get (azure_openai_api_key azure_unconfigured) [] = []"
    by (simp add: azure_unconfigured_def default_settings_def settings_get_def)
  have r: "fst (run azure_unconfigured net) =
      [Response_ready (lit ''Azure OpenAI configuration is incomplete.''), Response_finished]"
    using a b by (simp add: run_def process_azure_openai_request_def Let_def)
  show ?thesis
    unfolding r
    by (simp add: handle_user_input_def strip_examples init_widget_def run_model_thread_def
          end_of_response_def Let_def)
qed


text \<open>Chunks that arrive one after the other.\<close>

lemma deliver_all_append:
  "deliver_all (xs @ ys) w =
     (case deliver_all xs w of None \<Rightarrow> None | Some w1 \<Rightarrow> deliver_all ys w1)"
  by (induction xs arbitrary: w) (auto split: option.splits)

lemma chunk_on_open:
  assumes "history w = base @ [\<lparr>role = lit ''assistant'', content = x\<rparr>]"
  shows "handle_response_chunk c w =
           Some (update_chat_display
                  (w\<lparr>current_response := current_response w @ c,
                     history := base @ [\<lparr>role = lit ''assistant'',
                                         content = current_response w @ c\<rparr>]\<rparr>))"
  using assms by (simp add: handle_response_chunk_def Let_def)

lemma chunks_on_open:
  assumes "history w = base @ [\<lparr>role = lit ''assistant'', content = current_response w\<rparr>]"
  shows "\<exists>w'. deliver_all (map Response_chunk cs) w = Some w' \<and>
           history w' = base @ [\<lparr>role = lit ''assistant'',
                                  content = current_response w @ concat cs\<rparr>] \<and>
           current_response w' = current_response w @ concat cs"
  using assms
proof (induction cs arbitrary: w)
  case Nil
  then show ?case by simp
next
  case (Cons c cs)
  let ?w1 = "update_chat_display
               (w\<lparr>current_response := current_response w @ c,
                  history := base @ [\<lparr>role = lit ''assistant'',
                                      content = current_response w @ c\<rparr>]\<rparr>)"
  have s1: "handle_response_chunk c w = Some ?w1"
    using Cons.prems by (rule chunk_on_open)
  have h1: "history ?w1 = base @ [\<lparr>role = lit ''assistant'', content = current_response ?w1\<rparr>]"
    by (simp add: update_chat_display_def)
  have c1: "current_response ?w1 = current_response w @ c"
    by (simp add: update_chat_display_def)
  from Cons.IH [OF h1] obtain w' where
    w': "deliver_all (map Response_chunk cs) ?w1 = Some w'"
        "history w' = base @ [\<lparr>role = lit ''assistant'',
                                content = current_response ?w1 @ concat cs\<rparr>]"
        "current_response w' = current_response ?w1 @ concat cs"
    by blast
  have "deliver_all (map Response_chunk (c # cs)) w = Some w'"
    using s1 w'(1) by simp
  moreover have "history w' = base @ [\<lparr>role = lit ''assistant'',
                    content = current_response w @ concat (c # cs)\<rparr>]"
    using w'(2) unfolding c1 by simp
  moreover have "current_response w' = current_response w @ concat (c # cs)"
    using w'(3) unfolding c1 by simp
  ultimately show ?case by blast
qed

lemma first_chunk:
  assumes "current_response w = []"
  shows "\<exists>w1. handle_response_chunk c w = Some w1 \<and>
           history w1 =
             (if history w \<noteq> [] \<and> role (last (history w)) = (lit ''assistant'')
              then butlast (history w) else history w) @
             [\<lparr>role = lit ''assistant'', content = c\<rparr>] \<and>
           current_response w1 = c"
proof (cases "history w \<noteq> [] \<and> role (last (history w)) = (lit ''assistant'')")
  case True
  then have "(last (history w))\<lparr>content := c\<rparr> = \<lparr>role = lit ''assistant'', content = c\<rparr>"
    by (cases "last (history w)") simp
  with True assms show ?thesis
    by (simp add: handle_response_chunk_def Let_def update_chat_display_def)
next
  case False
  with assms show ?thesis
    by (auto simp add: handle_response_chunk_def Let_def update_chat_display_def)
qed

text \<open>
  C3. At the start of an assistant turn (\<open>current_response\<close> is empty), the chunks of a
  non-empty sequence followed by \<open>response_finished\<close> are all accepted, and the history
  then ends with one assistant message whose content is the concatenation of the chunks in
  their order; the entries before it are unchanged, except that a trailing assistant
  message is the one that receives the text.
\<close>

theorem chunks_concatenated:
  assumes "current_response w = []" and "chunks \<noteq> []"
  shows "\<exists>w'. deliver_all (map Response_chunk chunks @ [Response_finished]) w = Some w' \<and>
           history w' =
             (if history w \<noteq> [] \<and> role (last (history w)) = (lit ''assistant'')
              then butlast (history w) else history w) @
             [\<lparr>role = lit ''assistant'', content = concat chunks\<rparr>] \<and>
           current_response w' = [] \<and> \<not> analysis_in_progress w'"
proof -
  let ?base = "if history w \<noteq> [] \<and> role (last (history w)) = (lit ''assistant'')
               then butlast (history w) else history w"
  from assms(2) obtain c cs where chunks: "chunks = c # cs" by (cases chunks) auto
  from first_chunk [OF assms(1), where c = c] obtain w1 where
    w1: "handle_response_chunk c w = Some w1"
        "history w1 = ?base @ [\<lparr>role = lit ''assistant'', content = c\<rparr>]"
        "current_response w1 = c"
    by blast
  have open1: "history w1 = ?base @ [\<lparr>role = lit ''assistant'', content = current_response w1\<rparr>]"
    unfolding w1(3) by (rule w1(2))
  from chunks_on_open [OF open1, where cs = cs] obtain w2 where
    w2: "deliver_all (map Response_chunk cs) w1 = Some w2"
        "history w2 = ?base @ [\<lparr>role = lit ''assistant'',
                                 content = current_response w1 @ concat cs\<rparr>]"
    by blast
  have run: "deliver_all (map Response_chunk chunks @ [Response_finished]) w =
               Some (end_of_response w2)"
    unfolding chunks using w1(1) w2(1) by (simp add: deliver_all_append)
  have hist: "history (end_of_response w2) =
                ?base @ [\<lparr>role = lit ''assistant'', content = concat chunks\<rparr>]"
    using w2(2) unfolding w1(3) chunks by (simp add: end_of_response_def)
  have "current_response (end_of_response w2) = []"
    and "\<not> analysis_in_progress (end_of_response w2)"
    by (simp_all add: end_of_response_def)
  with run hist show ?thesis by blast
qed

theorem chunks_concatenated_witness:
  "\<exists>w'. deliver_all [Response_chunk (lit ''A''), Response_chunk (lit ''B''), Response_chunk (lit ''C''),
                      Response_finished] streaming = Some w' \<and>
         history w' = history streaming @ [\<lparr>role = lit ''assistant'', content = lit ''ABC''\<rparr>] \<and>
         current_response w' = [] \<and> \<not> analysis_in_progress w'"
proof -
  have st: "streaming =
     (init_widget default_settings)
       \<lparr>analysis_in_progress := True,
        history := history (init_widget default_settings) @ [\<lparr>role = lit ''user'', content = lit ''hi''\<rparr>],
        chat_display := [(You, lit ''hi'')],
        threads := [(lit ''hi'', False)]\<rparr>"
    by (simp add: streaming_def handle_user_input_def strip_examples Let_def
          run_model_thread_def init_widget_def)
  have a: "current_response streaming = []" by (simp add: st init_widget_def)
  have b: "[(lit ''A''), (lit ''B''), (lit ''C'')] \<noteq> []" by simp
  have c: "\<not> (history streaming \<noteq> [] \<and> role (last (history streaming)) = (lit ''assistant''))"
    by (simp add: st init_widget_def)
  show ?thesis
    using chunks_concatenated [OF a b] c by (simp add: lit_append)
qed


section \<open>The system message and the finished replies\<close>

lemma head_system_roles: "map role h' = map role h \<Longrightarrow> head_system h' = head_system h"
proof (cases h)
  case Nil
  assume "map role h' = map role h"
  with Nil show ?thesis by simp
next
  case (Cons m ms)
  assume eq: "map role h' = map role h"
  with Cons obtain m' ms' where h': "h' = m' # ms'" by (cases h') auto
  from eq Cons h' have r: "role m' = role m" and rs: "map role ms' = map role ms" by simp_all
  have "list_all (\<lambda>x. role x \<noteq> (lit ''system'')) ms' = list_all (\<lambda>r. r \<noteq> (lit ''system'')) (map role ms')"
    by (simp add: list_all_iff)
  also have "\<dots> = list_all (\<lambda>r. r \<noteq> (lit ''system'')) (map role ms)" by (simp only: rs)
  also have "\<dots> = list_all (\<lambda>x. role x \<noteq> (lit ''system'')) ms" by (simp add: list_all_iff)
  finally show ?thesis using Cons h' r by simp
qed

lemma head_system_append:
  "head_system h \<Longrightarrow> list_all (\<lambda>x. role x \<noteq> (lit ''system'')) extra \<Longrightarrow> head_system (h @ extra)"
  by (cases h) simp_all

lemma head_system_nonempty: "head_system h \<Longrightarrow> h \<noteq> []"
  by (cases h) simp_all

lemma extends_refl: "head_system h \<Longrightarrow> extends h h"
  by (simp add: extends_def)

lemma extends_append:
  "head_system h \<Longrightarrow> list_all (\<lambda>x. role x \<noteq> (lit ''system'')) extra \<Longrightarrow> extends h (h @ extra)"
  by (simp add: extends_def head_system_append nth_append)

lemma extends_trans: "extends h h' \<Longrightarrow> extends h' k \<Longrightarrow> extends h k"
  by (auto simp add: extends_def)

lemma filter_head_system:
  assumes "head_system h"
  shows "filter (\<lambda>m. role m \<noteq> (lit ''system'')) h = tl h"
proof (cases h)
  case Nil
  with assms show ?thesis by simp
next
  case (Cons m ms)
  with assms have "list_all (\<lambda>x. role x \<noteq> (lit ''system'')) ms" and "role m = (lit ''system'')" by simp_all
  then have "filter (\<lambda>m. role m \<noteq> (lit ''system'')) ms = ms" by (simp add: list_all_iff)
  with Cons \<open>role m = (lit ''system'')\<close> show ?thesis by simp
qed

lemma replace_system:
  assumes "head_system h"
  shows "extends h (\<lparr>role = lit ''system'', content = protocol\<rparr> # tl h)"
proof -
  from assms obtain m ms where h: "h = m # ms" by (cases h) auto
  with assms have "list_all (\<lambda>x. role x \<noteq> (lit ''system'')) ms" by simp
  then show ?thesis by (auto simp add: extends_def h nth_Cons split: nat.splits)
qed

lemma extends_user_input:
  "head_system (history w) \<Longrightarrow> extends (history w) (history (handle_user_input db w))"
  by (simp add: handle_user_input_def Let_def run_model_thread_def extends_refl extends_append)

lemma history_prepared:
  assumes "head_system (history w)" and "\<not> analysis_in_progress w"
  shows "history (add_error_message protocol (Prepared d p) w) =
           \<lparr>role = lit ''system'', content = protocol\<rparr> # tl (history w) @
           [\<lparr>role = lit ''user'', content = d\<rparr>]"
proof -
  have hs: "head_system (history w @ [\<lparr>role = lit ''user'', content = d\<rparr>])"
    using assms(1) by (simp add: head_system_append)
  have "filter (\<lambda>m. role m \<noteq> (lit ''system'')) (history w @ [\<lparr>role = lit ''user'', content = d\<rparr>]) =
          tl (history w @ [\<lparr>role = lit ''user'', content = d\<rparr>])"
    using hs by (rule filter_head_system)
  also have "\<dots> = tl (history w) @ [\<lparr>role = lit ''user'', content = d\<rparr>]"
    using head_system_nonempty [OF assms(1)] by simp
  finally have f: "filter (\<lambda>m. role m \<noteq> (lit ''system'')) (history w @ [\<lparr>role = lit ''user'', content = d\<rparr>]) =
      tl (history w) @ [\<lparr>role = lit ''user'', content = d\<rparr>]" .
  show ?thesis
    using assms(2)
    by (simp add: add_error_message_def Let_def update_chat_display_def run_model_thread_def
          del: filter_append) (simp only: f)
qed


lemma extends_update_last:
  assumes "head_system h"
  shows "extends h (butlast h @ [(last h)\<lparr>content := r\<rparr>])"
proof -
  have ne: "h \<noteq> []" using assms by (rule head_system_nonempty)
  have "map role (butlast h @ [(last h)\<lparr>content := r\<rparr>]) = map role (butlast h @ [last h])"
    by simp
  also have "\<dots> = map role h" using ne by simp
  finally have "head_system (butlast h @ [(last h)\<lparr>content := r\<rparr>]) = head_system h"
    by (rule head_system_roles)
  with assms have hs: "head_system (butlast h @ [(last h)\<lparr>content := r\<rparr>])" by simp
  have len: "length (butlast h @ [(last h)\<lparr>content := r\<rparr>]) = length h"
    using ne by simp
  have "\<forall>i. 0 < i \<and> Suc i < length h \<longrightarrow>
          (butlast h @ [(last h)\<lparr>content := r\<rparr>]) ! i = h ! i"
    by (auto simp add: nth_append nth_butlast)
  with hs len show ?thesis by (simp add: extends_def)
qed

lemma extends_chunk:
  assumes "head_system (history w)"
  shows "\<exists>w'. handle_response_chunk c w = Some w' \<and> extends (history w) (history w')"
proof -
  let ?h1 = "if current_response w = [] \<and>
                (history w = [] \<or> role (last (history w)) \<noteq> (lit ''assistant''))
             then history w @ [\<lparr>role = lit ''assistant'', content = []\<rparr>]
             else history w"
  let ?r = "current_response w @ c"
  have e1: "extends (history w) ?h1"
    using assms by (simp add: extends_refl extends_append)
  then have hs1: "head_system ?h1" by (simp add: extends_def)
  then have ne1: "?h1 \<noteq> []" by (rule head_system_nonempty)
  have e2: "extends ?h1 (butlast ?h1 @ [(last ?h1)\<lparr>content := ?r\<rparr>])"
    using hs1 by (rule extends_update_last)
  have res: "handle_response_chunk c w =
      Some (update_chat_display
              (w\<lparr>current_response := ?r,
                 history := butlast ?h1 @ [(last ?h1)\<lparr>content := ?r\<rparr>]\<rparr>))"
    using ne1 by (simp add: handle_response_chunk_def Let_def)
  have "extends (history w)
          (history (update_chat_display
              (w\<lparr>current_response := ?r,
                 history := butlast ?h1 @ [(last ?h1)\<lparr>content := ?r\<rparr>]\<rparr>)))"
    using extends_trans [OF e1 e2] by (simp add: update_chat_display_def)
  with res show ?thesis by blast
qed

lemma extends_error_message:
  assumes "head_system (history w)"
  shows "extends (history w) (history (add_error_message protocol prep w))"
proof (cases "analysis_in_progress w")
  case True
  with assms show ?thesis by (simp add: add_error_message_def extends_refl)
next
  case False
  show ?thesis
  proof (cases prep)
    case Prep_raises
    with False assms show ?thesis by (simp add: add_error_message_def extends_refl)
  next
    case (Display_only d)
    with False assms show ?thesis
      by (simp add: add_error_message_def update_chat_display_def extends_append)
  next
    case (Prepared d p)
    let ?u = "\<lparr>role = lit ''user'', content = d\<rparr>"
    have a: "extends (history w) (history w @ [?u])"
      using assms by (simp add: extends_append)
    then have hs: "head_system (history w @ [?u])" by (simp add: extends_def)
    have b: "extends (history w @ [?u])
               (\<lparr>role = lit ''system'', content = protocol\<rparr> # tl (history w @ [?u]))"
      using hs by (rule replace_system)
    have "tl (history w @ [?u]) = tl (history w) @ [?u]"
      using head_system_nonempty [OF assms] by simp
    with extends_trans [OF a b]
    have "extends (history w) (\<lparr>role = lit ''system'', content = protocol\<rparr> # tl (history w) @ [?u])"
      by simp
    then show ?thesis
      unfolding Prepared history_prepared [OF assms False] .
  qed
qed

lemma step_extends:
  assumes "head_system (history w)"
  shows "\<exists>w'. step db protocol e w = Some w' \<and> extends (history w) (history w')"
proof (cases e)
  case (User_input typed)
  have "head_system (history (w\<lparr>chat_input := typed\<rparr>))" using assms by simp
  then have "extends (history (w\<lparr>chat_input := typed\<rparr>))
               (history (handle_user_input db (w\<lparr>chat_input := typed\<rparr>)))"
    by (rule extends_user_input)
  with User_input show ?thesis by simp
next
  case (Error_message prep)
  with extends_error_message [OF assms, where protocol = protocol and prep = prep] show ?thesis by simp
next
  case (Signal x)
  show ?thesis
  proof (cases x)
    case (Response_chunk c)
    with Signal extends_chunk [OF assms, where c = c] show ?thesis by simp
  next
    case (Response_ready t)
    with Signal assms show ?thesis by (simp add: extends_refl)
  next
    case Response_finished
    with Signal assms show ?thesis by (simp add: end_of_response_def extends_refl)
  qed
next
  case (Start p e')
  with assms show ?thesis by (simp add: run_model_thread_def extends_refl)
next
  case (Full_response t)
  with assms show ?thesis by (simp add: display_full_response_def extends_append)
qed

lemma run_extends:
  assumes "head_system (history w)"
  shows "\<exists>w'. run_events db protocol evs w = Some w' \<and> extends (history w) (history w')"
  using assms
proof (induction evs arbitrary: w)
  case Nil
  then show ?case by (simp add: extends_refl)
next
  case (Cons e evs)
  from step_extends [OF Cons.prems, where db = db and protocol = protocol and e = e] obtain w1 where
    w1: "step db protocol e w = Some w1" "extends (history w) (history w1)" by blast
  then have "head_system (history w1)" by (simp add: extends_def)
  from Cons.IH [OF this] obtain w' where
    w': "run_events db protocol evs w1 = Some w'" "extends (history w1) (history w')" by blast
  from w1(1) w'(1) have "run_events db protocol (e # evs) w = Some w'" by simp
  with extends_trans [OF w1(2) w'(2)] show ?case by blast
qed

text \<open>
  C8. After every sequence of events that ends with the submission of an error, whatever
  becomes of the submission, the history starts with a system message and holds no other;
  and a submission that goes through replaces the system messages of any history by the
  new one at the head, keeping the other entries in order, with the formatted error last.
\<close>

theorem system_message_replaced:
  "(\<exists>w'. run_events db protocol (evs @ [Error_message prep]) (init_widget s) = Some w' \<and>
          head_system (history w')) \<and>
   history (add_error_message protocol (Prepared d p) (w\<lparr>analysis_in_progress := False\<rparr>)) =
     \<lparr>role = lit ''system'', content = protocol\<rparr> #
     filter (\<lambda>m. role m \<noteq> (lit ''system'')) (history w) @ [\<lparr>role = lit ''user'', content = d\<rparr>]"
proof -
  have "head_system (history (init_widget s))" by (simp add: init_widget_def)
  from run_extends [OF this, where db = db and protocol = protocol
          and evs = "evs @ [Error_message prep]"]
  have "\<exists>w'. run_events db protocol (evs @ [Error_message prep]) (init_widget s) = Some w' \<and>
          head_system (history w')"
    by (auto simp add: extends_def)
  moreover have "history (add_error_message protocol (Prepared d p)
                    (w\<lparr>analysis_in_progress := False\<rparr>)) =
     \<lparr>role = lit ''system'', content = protocol\<rparr> #
     filter (\<lambda>m. role m \<noteq> (lit ''system'')) (history w) @ [\<lparr>role = lit ''user'', content = d\<rparr>]"
    by (simp add: add_error_message_def Let_def update_chat_display_def run_model_thread_def)
  ultimately show ?thesis by blast
qed


lemma next_message_appended:
  assumes hs: "head_system (history w)" and hw: "history w = h @ [m]" and ne: "h \<noteq> []"
    and idle: "\<not> analysis_in_progress w"
    and e: "e = User_input typed \<and> py_strip db typed \<noteq> [] \<or>
            e = Error_message (Display_only d) \<or> e = Error_message (Prepared d p)"
  shows "\<exists>w2. step db protocol e w = Some w2 \<and> head_system (history w2) \<and>
           Suc (length h) < length (history w2) \<and> history w2 ! length h = m"
proof -
  from step_extends [OF hs, where db = db and protocol = protocol and e = e] obtain w2 where
    w2: "step db protocol e w = Some w2" "extends (history w) (history w2)" by blast
  then have hs2: "head_system (history w2)" by (simp add: extends_def)
  from ne obtain x xs where h: "h = x # xs" by (cases h) auto
  from e consider
      (user) "e = User_input typed" "py_strip db typed \<noteq> []"
    | (display) "e = Error_message (Display_only d)"
    | (prepared) "e = Error_message (Prepared d p)" by blast
  then have "\<exists>u. history w2 = h @ [m, u] \<or>
                  history w2 = \<lparr>role = lit ''system'', content = protocol\<rparr> # xs @ [m, u]"
  proof cases
    case user
    with w2(1) hw show ?thesis
      by (auto simp add: handle_user_input_def Let_def run_model_thread_def)
  next
    case display
    with w2(1) hw idle show ?thesis
      by (auto simp add: add_error_message_def update_chat_display_def)
  next
    case prepared
    from history_prepared [OF hs idle, where protocol = protocol and d = d and p = p] prepared w2(1) hw h
    show ?thesis by auto
  qed
  then obtain u where
    "history w2 = h @ [m, u] \<or>
     history w2 = \<lparr>role = lit ''system'', content = protocol\<rparr> # xs @ [m, u]" by blast
  then have "Suc (length h) < length (history w2) \<and> history w2 ! length h = m"
    by (auto simp add: h nth_append)
  with w2(1) hs2 show ?thesis by blast
qed

text \<open>
  C6. The claim includes a later generation that starts while the finished assistant
  message is still the last entry. After \<open>hi\<close> was answered with \<open>A\<close> and the generation
  has ended, \<open>run_model_thread\<close> is called again and the chunk \<open>B\<close> arrives: the finished
  message now reads \<open>B\<close>.
\<close>

theorem finished_reply_overwritten:
  "run_events example_db (lit ''protocol'') [User_input (lit ''hi''), Signal (Response_chunk (lit ''A''))]
     (init_widget default_settings) = Some replied \<and>
   history replied ! 2 = \<lparr>role = lit ''assistant'', content = lit ''A''\<rparr> \<and>
   map_option history
     (run_events example_db (lit ''protocol'')
        [Signal Response_finished, Start (lit ''again'') False, Signal (Response_chunk (lit ''B''))]
        replied) =
   Some (history (init_widget default_settings) @
         [\<lparr>role = lit ''user'', content = lit ''hi''\<rparr>, \<lparr>role = lit ''assistant'', content = lit ''B''\<rparr>])"
proof -
  have a: "run_events example_db (lit ''protocol'')
             [User_input (lit ''hi''), Signal (Response_chunk (lit ''A''))]
             (init_widget default_settings) = Some replied"
    by (simp add: replied_def init_widget_def handle_user_input_def strip_examples Let_def
          run_model_thread_def handle_response_chunk_def update_chat_display_def)
  have b: "history replied ! 2 = \<lparr>role = lit ''assistant'', content = lit ''A''\<rparr>"
    by (simp add: replied_def init_widget_def)
  have c: "map_option history
     (run_events example_db (lit ''protocol'')
        [Signal Response_finished, Start (lit ''again'') False, Signal (Response_chunk (lit ''B''))]
        replied) =
   Some (history (init_widget default_settings) @
         [\<lparr>role = lit ''user'', content = lit ''hi''\<rparr>,
          \<lparr>role = lit ''assistant'', content = lit ''B''\<rparr>])"
    by (simp add: replied_def init_widget_def run_model_thread_def handle_response_chunk_def
          update_chat_display_def end_of_response_def Let_def)
  from a b c show ?thesis by (intro conjI)
qed



text \<open>
  C6, as amended. When a generation has ended and the next user message has been appended
  after the assistant message (by \<open>handle_user_input\<close> on a text that is not blank, or by
  \<open>add_error_message\<close> once the error is formatted), every further sequence of events is
  accepted and leaves that assistant message as it was.
\<close>

theorem finished_reply_kept:
  assumes "head_system (history w)" and "history w = h @ [m]" and "role m = (lit ''assistant'')"
    and "e = User_input typed \<and> py_strip db typed \<noteq> [] \<or>
         e = Error_message (Display_only d) \<or> e = Error_message (Prepared d p)"
  shows "\<exists>w'. run_events db protocol (Signal Response_finished # e # evs) w = Some w' \<and>
           history w' ! length h = m"
proof -
  have ne: "h \<noteq> []"
  proof
    assume "h = []"
    with assms(1,2) have "role m = (lit ''system'')" by simp
    with assms(3) show False by simp
  qed
  let ?w1 = "end_of_response w"
  have hs1: "head_system (history ?w1)" using assms(1) by (simp add: end_of_response_def)
  have hw1: "history ?w1 = h @ [m]" using assms(2) by (simp add: end_of_response_def)
  have idle: "\<not> analysis_in_progress ?w1" by (simp add: end_of_response_def)
  from next_message_appended [OF hs1 hw1 ne idle assms(4), where protocol = protocol] obtain w2 where
    w2: "step db protocol e ?w1 = Some w2" "head_system (history w2)"
        "Suc (length h) < length (history w2)" "history w2 ! length h = m" by blast
  from run_extends [OF w2(2), where db = db and protocol = protocol and evs = evs] obtain w' where
    w': "run_events db protocol evs w2 = Some w'" "extends (history w2) (history w')" by blast
  from ne have "0 < length h" by simp
  with w'(2) w2(3) have "history w' ! length h = history w2 ! length h"
    by (simp add: extends_def)
  with w2(4) have "history w' ! length h = m" by simp
  moreover have "run_events db protocol (Signal Response_finished # e # evs) w = Some w'"
    using w2(1) w'(1) by simp
  ultimately show ?thesis by blast
qed

theorem finished_reply_kept_witness:
  "\<exists>w'. run_events example_db (lit ''protocol'')
           [Signal Response_finished, User_input (lit ''more''), Signal (Response_chunk (lit ''B'')),
            Signal Response_finished] replied = Some w' \<and>
         history w' ! 2 = \<lparr>role = lit ''assistant'', content = lit ''A''\<rparr>"
proof -
  have a: "head_system (history replied)" by (simp add: replied_def init_widget_def)
  have b: "history replied =
             (history (init_widget default_settings) @ [\<lparr>role = lit ''user'', content = lit ''hi''\<rparr>]) @
             [\<lparr>role = lit ''assistant'', content = lit ''A''\<rparr>]"
    by (simp add: replied_def)
  have c: "role \<lparr>role = lit ''assistant'', content = lit ''A''\<rparr> = (lit ''assistant'')" by simp
  have d: "User_input (lit ''more'') = User_input (lit ''more'') \<and> py_strip example_db (lit ''more'') \<noteq> [] \<or>
           User_input (lit ''more'') = Error_message (Display_only []) \<or>
           User_input (lit ''more'') = Error_message (Prepared [] [])"
    by (simp add: strip_examples)
  have l: "length (history (init_widget default_settings) @
                   [\<lparr>role = lit ''user'', content = lit ''hi''\<rparr>]) = 2"
    by (simp add: init_widget_def)
  show ?thesis
    using finished_reply_kept [OF a b c d, where protocol = "lit ''protocol''"
            and evs = "[Signal (Response_chunk (lit ''B'')), Signal Response_finished]"]
    unfolding l .
qed

end
